theory Spec2Isabelle
  imports Main
begin

section \<open>Python primitives used by ofxpostern.py\<close>

text \<open>
  Exceptions are values. \<open>KeyError\<close> carries the missing key, \<open>OSError\<close> the path the
  file system refused, \<open>TransportError\<close> and \<open>ParseError\<close> stand for whatever the
  external \<open>testofx\<close> module raises from \<open>send_req\<close> and \<open>OFXFile\<close>.
  \<open>FormatError\<close> is the exception \<open>str.format\<close> raises for a malformed template, for
  a replacement field that is not the plain \<open>{}\<close>, or for too few arguments.
\<close>

datatype error =
    KeyError string
  | ValueError string
  | FormatError
  | OSError string
  | TransportError string
  | ParseError string

text \<open>\<open>s.partition(sep)\<close> for a one-character separator: the text before the first
  occurrence, the separator, the text after it; \<open>(s, '', '')\<close> when there is none.\<close>

fun partition_py :: "char \<Rightarrow> string \<Rightarrow> string \<times> string \<times> string" where
  "partition_py sep [] = ([], [], [])"
| "partition_py sep (c # cs) =
     (if c = sep then ([], [sep], cs)
      else (case partition_py sep cs of (a, b, d) \<Rightarrow> (c # a, b, d)))"

text \<open>\<open>s.replace(old, new)\<close> where \<open>old\<close> and \<open>new\<close> are single characters.\<close>

definition replace_py :: "char \<Rightarrow> char \<Rightarrow> string \<Rightarrow> string" where
  "replace_py old new s = map (\<lambda>c. if c = old then new else c) s"

text \<open>
  \<open>template.format(*args)\<close> for string arguments and automatically numbered fields:
  \<open>{}\<close> takes the next argument, \<open>{{\<close> and \<open>}}\<close> are escaped braces, surplus
  arguments are ignored. The only template of the program that is not a literal is
  \<open>FI_DIR_FMT\<close>, which starts with the value of \<open>HOME\<close> and ends with \<open>{}-{}-{}\<close>; any
  other field that \<open>HOME\<close> might open makes Python raise there (too few arguments, a
  missing name, or mixed numbering), which is \<open>FormatError\<close> here.
\<close>

fun py_format :: "string \<Rightarrow> string list \<Rightarrow> error + string" where
  "py_format [] args = Inr []"
| "py_format [c] args =
     (if c = CHR ''{'' \<or> c = CHR ''}'' then Inl FormatError else Inr [c])"
| "py_format (c # d # t) args =
     (if c = CHR ''{'' then
        (if d = CHR ''{'' then map_sum id ((#) c) (py_format t args)
         else if d = CHR ''}'' then
           (case args of
              [] \<Rightarrow> Inl FormatError
            | a # as \<Rightarrow> map_sum id ((@) a) (py_format t as))
         else Inl FormatError)
      else if c = CHR ''}'' then
        (if d = CHR ''}'' then map_sum id ((#) c) (py_format t args)
         else Inl FormatError)
      else map_sum id ((#) c) (py_format (d # t) args))"

text \<open>\<open>'{:{}}'.format(s, w)\<close> for a string \<open>s\<close>: left-aligned, padded with spaces to
  width \<open>w\<close>, never truncated.\<close>

definition format_width :: "string \<Rightarrow> nat \<Rightarrow> string" where
  "format_width s w = s @ replicate (w - length s) CHR '' ''"

section \<open>Defines\<close>

definition PROGRAM_NAME :: string where
  "PROGRAM_NAME = ''ofxpostern''"

definition VERSION :: string where
  "VERSION = ''0.0.1''"

text \<open>The three directory constants are computed once from \<open>os.environ['HOME']\<close>, which
  is the parameter \<open>home\<close>. Their templates are literals, so \<open>format\<close> is concatenation;
  \<open>FI_DIR_FMT\<close> is itself a template and is used through \<open>py_format\<close>.\<close>

definition DATA_DIR :: "string \<Rightarrow> string" where
  "DATA_DIR home = home @ ''/.'' @ PROGRAM_NAME"

definition FIS_DIR :: "string \<Rightarrow> string" where
  "FIS_DIR home = DATA_DIR home @ ''/'' @ ''fi''"

definition FI_DIR_FMT :: "string \<Rightarrow> string" where
  "FI_DIR_FMT home = FIS_DIR home @ ''/'' @ ''{}-{}-{}''"

definition STR_HEADERS :: string where
  "STR_HEADERS = ''headers''"

definition STR_BODY :: string where
  "STR_BODY = ''body''"

definition debug :: bool where
  "debug = True"

text \<open>\<open>str(n)\<close> for an integer, as \<open>'{}'.format(n)\<close> prints it.\<close>

fun str_nat :: "nat \<Rightarrow> string" where
  "str_nat n =
     (if n < 10 then [char_of (48 + n)]
      else str_nat (n div 10) @ [char_of (48 + n mod 10)])"

declare str_nat.simps [simp del]

definition str_int :: "int \<Rightarrow> string" where
  "str_int i = (if i < 0 then CHR ''-'' # str_nat (nat (- i)) else str_nat (nat i))"

section \<open>Data\<close>

text \<open>\<open>testofx.OFXServerInstance\<close>: the server under test, with the three attributes
  \<open>init\<close> reads.\<close>

record server =
  ofxurl :: string
  fid :: string
  org :: string

text \<open>The response object \<open>send_req\<close> returns; \<open>body_text\<close> is its attribute \<open>text\<close>.\<close>

record response =
  headers :: "(string \<times> string) list"
  body_text :: string

text \<open>\<open>testofx.OFXFile\<close>: the parsed profile response with its two dictionaries.\<close>

record ofxfile =
  signon :: "string \<rightharpoonup> string"
  profile :: "string \<rightharpoonup> string"

text \<open>The \<open>argparse\<close> namespace: \<open>url\<close> is required, \<open>--fid\<close> and \<open>--org\<close> are \<open>None\<close>
  when not given.\<close>

record args =
  args_url :: string
  args_fid :: "string option"
  args_org :: "string option"

text \<open>
  What the module takes from outside: the environment variable \<open>HOME\<close>, the program
  name \<open>argparse\<close> reports, the two readings of \<open>time.asctime()\<close>, the names and
  functions of the \<open>testofx\<close> module, \<open>json.dumps\<close> of the header dictionary, the
  paths on which \<open>os.makedirs\<close> and \<open>open\<close> raise, and \<open>str\<close> of the namespace.
\<close>

record env =
  home :: string
  prog :: string
  asctime_start :: string
  asctime_end :: string
  REQ_NAME_OFX_PROFILE :: string
  OFXServerInstance :: "string \<Rightarrow> string option \<Rightarrow> string option \<Rightarrow> server"
  send_req :: "string \<Rightarrow> server \<Rightarrow> error + response"
  OFXFile :: "string \<Rightarrow> error + ofxfile"
  json_dumps :: "(string \<times> string) list \<Rightarrow> string"
  fs_refuses :: "string \<Rightarrow> bool"
  str_args :: "args \<Rightarrow> string"

text \<open>
  The state the program changes: the globals \<open>fi_dir\<close> and \<open>req_results\<close>, the
  directories made and the files written (path to content), the request names handed
  to the protocol client, and the lines printed.
\<close>

record world =
  fi_dir :: string
  req_results :: "string \<rightharpoonup> response"
  made_dirs :: "string list"
  files :: "string \<rightharpoonup> string"
  sent :: "string list"
  stdout :: "string list"

text \<open>A statement either completes with a value or raises; in both cases the changes it
  made to the state so far remain.\<close>

type_synonym 'a io = "world \<Rightarrow> (error + 'a) \<times> world"

definition return_io :: "'a \<Rightarrow> 'a io" where
  "return_io x w = (Inr x, w)"

definition raise_io :: "error \<Rightarrow> 'a io" where
  "raise_io e w = (Inl e, w)"

definition bind_io :: "'a io \<Rightarrow> ('a \<Rightarrow> 'b io) \<Rightarrow> 'b io" where
  "bind_io m f w = (case m w of (Inl e, w') \<Rightarrow> (Inl e, w') | (Inr x, w') \<Rightarrow> f x w')"

definition lift_io :: "error + 'a \<Rightarrow> 'a io" where
  "lift_io r w = (r, w)"

definition print_py :: "string \<Rightarrow> unit io" where
  "print_py msg w = (Inr (), w\<lparr>stdout := stdout w @ [msg]\<rparr>)"

text \<open>\<open>os.makedirs(path, mode=0o770, exist_ok=True)\<close>.\<close>

definition makedirs :: "env \<Rightarrow> string \<Rightarrow> unit io" where
  "makedirs E path w =
     (if fs_refuses E path then (Inl (OSError path), w)
      else (Inr (), w\<lparr>made_dirs := made_dirs w @ [path]\<rparr>))"

text \<open>\<open>with open(path, 'w') as fd: fd.write(content)\<close>: the file is replaced.\<close>

definition write_file :: "env \<Rightarrow> string \<Rightarrow> string \<Rightarrow> unit io" where
  "write_file E path content w =
     (if fs_refuses E path then (Inl (OSError path), w)
      else (Inr (), w\<lparr>files := (files w)(path \<mapsto> content)\<rparr>))"

text \<open>\<open>d[k]\<close> on a dictionary.\<close>

definition getitem :: "(string \<rightharpoonup> 'v) \<Rightarrow> string \<Rightarrow> error + 'v" where
  "getitem d k = (case d k of None \<Rightarrow> Inl (KeyError k) | Some v \<Rightarrow> Inr v)"

text \<open>
  \<open>try: ... except KeyError: pass\<close>. The body yields the exception it stopped with, if
  any, and the local variables as they were at that point; a \<open>KeyError\<close> is swallowed,
  anything else goes on.
\<close>

definition is_KeyError :: "error \<Rightarrow> bool" where
  "is_KeyError e = (case e of KeyError k \<Rightarrow> True | _ \<Rightarrow> False)"

definition except_KeyError_pass :: "error option \<times> 'l \<Rightarrow> error + 'l" where
  "except_KeyError_pass r =
     (case r of
        (None, l) \<Rightarrow> Inr l
      | (Some e, l) \<Rightarrow> if is_KeyError e then Inr l else Inl e)"

section \<open>Helper functions\<close>

definition url_fname :: "string \<Rightarrow> string" where
  "url_fname u =
     replace_py CHR ''&'' CHR ''+''
       (replace_py CHR ''/'' CHR ''_'' (drop 1 (snd (snd (partition_py CHR ''/'' u)))))"

definition init :: "env \<Rightarrow> server \<Rightarrow> unit io" where
  "init E srv w =
     (case py_format (FI_DIR_FMT (home E)) [url_fname (ofxurl srv), fid srv, org srv] of
        Inl e \<Rightarrow> (Inl e, w)
      | Inr d \<Rightarrow>
          bind_io (makedirs E (DATA_DIR (home E))) (\<lambda>_.
          bind_io (makedirs E (FIS_DIR (home E))) (\<lambda>_.
          makedirs E d)) (w\<lparr>fi_dir := d\<rparr>))"

definition print_debug :: "string \<Rightarrow> unit io" where
  "print_debug msg = (if debug then print_py (''DEBUG: '' @ msg) else return_io ())"

definition print_header :: "string \<Rightarrow> int \<Rightarrow> unit io" where
  "print_header msg lvl =
     (if lvl = 1 then
        bind_io (print_py msg) (\<lambda>_. print_py (replicate (length msg) CHR ''#''))
      else if lvl = 2 then
        bind_io (print_py msg) (\<lambda>_. print_py (replicate (length msg) CHR ''=''))
      else if lvl = 3 then
        bind_io (print_py msg) (\<lambda>_. print_py (replicate (length msg) CHR ''-''))
      else raise_io (ValueError (''Unknown lvl: '' @ str_int lvl)))"

text \<open>The first loop of \<open>print_kv_list\<close>, from \<open>k_width = 0\<close>.\<close>

fun k_width :: "(string \<times> string) list \<Rightarrow> nat \<Rightarrow> nat" where
  "k_width [] kw = kw"
| "k_width ((k, v) # kvs) kw = k_width kvs (if length k > kw then length k else kw)"

text \<open>The second loop, with the width the first one found.\<close>

fun print_kv_lines :: "nat \<Rightarrow> (string \<times> string) list \<Rightarrow> unit io" where
  "print_kv_lines kw [] = return_io ()"
| "print_kv_lines kw ((k, v) # kvs) =
     bind_io (print_py (format_width (k @ '':'') (kw + 1) @ '' '' @ v))
       (\<lambda>_. print_kv_lines kw kvs)"

definition print_kv_list :: "(string \<times> string) list \<Rightarrow> unit io" where
  "print_kv_list kv_list = print_kv_lines (k_width kv_list 0) kv_list"

section \<open>Core logic\<close>

text \<open>
  \<open>send_profile_req\<close>: the request goes to the protocol client first; only a response
  that came back is written to the two cache files and stored in \<open>req_results\<close>.
\<close>

definition send_profile_req :: "env \<Rightarrow> server \<Rightarrow> unit io" where
  "send_profile_req E srv w =
     (let req_name = REQ_NAME_OFX_PROFILE E;
          w1 = w\<lparr>sent := sent w @ [req_name]\<rparr>
      in case send_req E req_name srv of
           Inl e \<Rightarrow> (Inl e, w1)
         | Inr res \<Rightarrow>
             (let res_name_base =
                    replace_py CHR '' '' CHR ''_'' (replace_py CHR ''/'' CHR ''+'' req_name)
              in bind_io
                   (write_file E (fi_dir w1 @ ''/'' @ res_name_base @ ''-'' @ STR_HEADERS)
                      (json_dumps E (headers res))) (\<lambda>_.
                 bind_io
                   (write_file E (fi_dir w1 @ ''/'' @ res_name_base @ ''-'' @ STR_BODY)
                      (body_text res)) (\<lambda>_.
                 (\<lambda>w2. (Inr (), w2\<lparr>req_results := (req_results w2)(req_name \<mapsto> res)\<rparr>))))
                   w1))"

text \<open>The tuple \<open>output\<close> of \<open>report_cli_fi\<close>: dictionary key and label.\<close>

definition output_py :: "(string \<times> string) list" where
  "output_py = [(''FINAME'', ''Name''), (''ADDR1'', ''Address''), (''ADDR2'', ''''), (''ADDR3'', '''')]"

text \<open>The loop over \<open>output\<close>; each turn is one \<open>try\<close> whose local variable is
  \<open>fi_list\<close>.\<close>

fun fi_loop ::
  "ofxfile \<Rightarrow> (string \<times> string) list \<Rightarrow> (string \<times> string) list \<Rightarrow> error + (string \<times> string) list"
where
  "fi_loop profrs [] fi_list = Inr fi_list"
| "fi_loop profrs (tup # tups) fi_list =
     (case except_KeyError_pass
             (case getitem (profile profrs) (fst tup) of
                Inl e \<Rightarrow> (Some e, fi_list)
              | Inr val \<Rightarrow> (None, fi_list @ [(snd tup, val)])) of
        Inl e \<Rightarrow> Inl e
      | Inr fi_list' \<Rightarrow> fi_loop profrs tups fi_list')"

text \<open>The body of the \<open>try\<close> that reads \<open>CITY\<close>, \<open>STATE\<close> and \<open>POSTALCODE\<close>: three
  assignments in a row, left at the first lookup that raises.\<close>

definition city_state_postalcode_try ::
  "ofxfile \<Rightarrow> string \<times> string \<times> string \<Rightarrow> error option \<times> (string \<times> string \<times> string)"
where
  "city_state_postalcode_try profrs l =
     (case l of (city, state, postalcode) \<Rightarrow>
        (case getitem (profile profrs) ''CITY'' of
           Inl e \<Rightarrow> (Some e, (city, state, postalcode))
         | Inr city' \<Rightarrow>
             (case getitem (profile profrs) ''STATE'' of
                Inl e \<Rightarrow> (Some e, (city', state, postalcode))
              | Inr state' \<Rightarrow>
                  (case getitem (profile profrs) ''POSTALCODE'' of
                     Inl e \<Rightarrow> (Some e, (city', state', postalcode))
                   | Inr postalcode' \<Rightarrow> (None, (city', state', postalcode'))))))"

definition country_try :: "ofxfile \<Rightarrow> string \<Rightarrow> error option \<times> string" where
  "country_try profrs country =
     (case getitem (profile profrs) ''COUNTRY'' of
        Inl e \<Rightarrow> (Some e, country)
      | Inr country' \<Rightarrow> (None, country'))"

text \<open>The list \<open>fi_list\<close> as \<open>report_cli_fi\<close> has it when it calls \<open>print_kv_list\<close>.\<close>

definition report_cli_fi_list :: "ofxfile \<Rightarrow> error + (string \<times> string) list" where
  "report_cli_fi_list profrs =
     (case fi_loop profrs output_py [] of
        Inl e \<Rightarrow> Inl e
      | Inr fi_list \<Rightarrow>
          (case except_KeyError_pass (city_state_postalcode_try profrs ('''', '''', '''')) of
             Inl e \<Rightarrow> Inl e
           | Inr (city, state, postalcode) \<Rightarrow>
               (let fi_list1 = fi_list @ [('''', city @ '', '' @ state @ '' '' @ postalcode)]
                in case except_KeyError_pass (country_try profrs '''') of
                     Inl e \<Rightarrow> Inl e
                   | Inr country \<Rightarrow> Inr (fi_list1 @ [('''', country)]))))"

definition report_cli_fi :: "ofxfile \<Rightarrow> unit io" where
  "report_cli_fi profrs =
     bind_io (print_header ''Financial Institution'' 2) (\<lambda>_.
     bind_io (print_py '''') (\<lambda>_.
     bind_io (lift_io (report_cli_fi_list profrs)) (\<lambda>fi_list.
     bind_io (print_kv_list fi_list) (\<lambda>_.
     print_py ''''))))"

text \<open>One of the three \<open>try\<close> statements of \<open>report_cli_server\<close>: look \<open>key\<close> up in \<open>d\<close>
  and append it under \<open>label\<close>.\<close>

definition server_try ::
  "(string \<rightharpoonup> string) \<Rightarrow> string \<Rightarrow> string \<Rightarrow> (string \<times> string) list
     \<Rightarrow> error option \<times> (string \<times> string) list"
where
  "server_try d key label fi_list =
     (case getitem d key of
        Inl e \<Rightarrow> (Some e, fi_list)
      | Inr val \<Rightarrow> (None, fi_list @ [(label, val)]))"

text \<open>The list \<open>fi_list\<close> as \<open>report_cli_server\<close> has it when it calls
  \<open>print_kv_list\<close>.\<close>

definition report_cli_server_list :: "ofxfile \<Rightarrow> error + (string \<times> string) list" where
  "report_cli_server_list profrs =
     (case except_KeyError_pass (server_try (signon profrs) ''FID'' ''FID'' []) of
        Inl e \<Rightarrow> Inl e
      | Inr fi_list1 \<Rightarrow>
          (case except_KeyError_pass (server_try (signon profrs) ''ORG'' ''ORG'' fi_list1) of
             Inl e \<Rightarrow> Inl e
           | Inr fi_list2 \<Rightarrow>
               except_KeyError_pass (server_try (profile profrs) ''OFXURL'' ''URL'' fi_list2)))"

definition report_cli_server :: "ofxfile \<Rightarrow> unit io" where
  "report_cli_server profrs =
     bind_io (print_header ''OFX Server'' 2) (\<lambda>_.
     bind_io (print_py '''') (\<lambda>_.
     bind_io (lift_io (report_cli_server_list profrs)) (\<lambda>fi_list.
     bind_io (print_kv_list fi_list) (\<lambda>_.
     print_py ''''))))"

definition report_cli :: "ofxfile \<Rightarrow> unit io" where
  "report_cli profrs = bind_io (report_cli_fi profrs) (\<lambda>_. report_cli_server profrs)"

text \<open>\<open>main\<close>, from the parsed arguments on.\<close>

definition main :: "env \<Rightarrow> args \<Rightarrow> unit io" where
  "main E a =
     bind_io (print_debug (str_args E a)) (\<lambda>_.
     (let srv = OFXServerInstance E (args_url a) (args_fid a) (args_org a) in
     bind_io (init E srv) (\<lambda>_.
     bind_io (print_py (prog E @ '': version '' @ VERSION)) (\<lambda>_.
     bind_io (print_py '''') (\<lambda>_.
     bind_io (print_py (''Start: '' @ asctime_start E)) (\<lambda>_.
     bind_io (print_py ''  Sending <PROFRQ>'') (\<lambda>_.
     bind_io (send_profile_req E srv) (\<lambda>_.
     bind_io (print_py (''End:   '' @ asctime_end E)) (\<lambda>_.
     bind_io (print_py '''') (\<lambda>_.
     bind_io (\<lambda>w. (getitem (req_results w) (REQ_NAME_OFX_PROFILE E), w)) (\<lambda>res.
     bind_io (lift_io (OFXFile E (body_text res))) (\<lambda>profrs.
     report_cli profrs))))))))))))"

section \<open>Specification-side notions\<close>

text \<open>\<open>HOME\<close> without braces: then the only replacement fields of \<open>FI_DIR_FMT\<close> are the
  three of \<open>{}-{}-{}\<close>.\<close>

definition brace_free :: "string \<Rightarrow> bool" where
  "brace_free s = (CHR ''{'' \<notin> set s \<and> CHR ''}'' \<notin> set s)"

text \<open>
  The identity deriver in the specification's words: find the first \<open>/\<close>, take
  everything after it, strip the leading character of that remainder, replace every
  \<open>/\<close> with \<open>_\<close> and every \<open>&\<close> with \<open>+\<close>; the segment \<open><transformed>-<fid>-<org>\<close>
  goes under the base directory. A url without \<open>/\<close> has an empty remainder.
\<close>

definition spec_transformed :: "string \<Rightarrow> string" where
  "spec_transformed u =
     map (\<lambda>c. if c = CHR ''/'' then CHR ''_'' else if c = CHR ''&'' then CHR ''+'' else c)
       (drop 1 (drop 1 (dropWhile (\<lambda>c. c \<noteq> CHR ''/'') u)))"

definition spec_segment :: "string \<Rightarrow> string \<Rightarrow> string \<Rightarrow> string" where
  "spec_segment u f g = spec_transformed u @ ''-'' @ f @ ''-'' @ g"

definition spec_cache_dir :: "string \<Rightarrow> string \<Rightarrow> string \<Rightarrow> string \<Rightarrow> string" where
  "spec_cache_dir base u f g = base @ ''/'' @ spec_segment u f g"

text \<open>The per-identity path segment of a cache directory: what follows \<open>FIS_DIR\<close> and
  its separator.\<close>

definition fi_segment :: "string \<Rightarrow> string \<Rightarrow> string" where
  "fi_segment h d = drop (length (FIS_DIR h) + 1) d"

text \<open>The values of city, state and postal code after the single \<open>try\<close> of
  \<open>report_cli_fi\<close>, read off the dictionary: each lookup counts only if the ones
  before it succeeded.\<close>

definition coupled_city_state_postalcode :: "ofxfile \<Rightarrow> string \<times> string \<times> string" where
  "coupled_city_state_postalcode profrs =
     (case profile profrs ''CITY'' of
        None \<Rightarrow> ('''', '''', '''')
      | Some c \<Rightarrow>
          (case profile profrs ''STATE'' of
             None \<Rightarrow> (c, '''', '''')
           | Some s \<Rightarrow>
               (case profile profrs ''POSTALCODE'' of
                  None \<Rightarrow> (c, s, '''')
                | Some z \<Rightarrow> (c, s, z))))"

text \<open>The same three values looked up independently, each defaulting to the empty
  string on its own.\<close>

definition independent_city_state_postalcode :: "ofxfile \<Rightarrow> string \<times> string \<times> string" where
  "independent_city_state_postalcode profrs =
     (case profile profrs ''CITY'' of None \<Rightarrow> '''' | Some c \<Rightarrow> c,
      case profile profrs ''STATE'' of None \<Rightarrow> '''' | Some s \<Rightarrow> s,
      case profile profrs ''POSTALCODE'' of None \<Rightarrow> '''' | Some z \<Rightarrow> z)"

text \<open>One output line of \<open>print_kv_list\<close> for the width \<open>kw\<close> its first loop found.\<close>

definition kv_line :: "nat \<Rightarrow> string \<times> string \<Rightarrow> string" where
  "kv_line kw kv = format_width (fst kv @ '':'') (kw + 1) @ '' '' @ snd kv"

section \<open>Example inputs\<close>

definition example_world :: world where
  "example_world =
     \<lparr>fi_dir = '''', req_results = Map.empty, made_dirs = [], files = Map.empty,
      sent = [], stdout = []\<rparr>"

definition example_profrs :: ofxfile where
  "example_profrs =
     \<lparr>signon = [''FID'' \<mapsto> ''1001''],
      profile = [''OFXURL'' \<mapsto> ''https://ofx.example.com'']\<rparr>"

text \<open>A profile with a state and a postal code but no city.\<close>

definition no_city_profrs :: ofxfile where
  "no_city_profrs =
     \<lparr>signon = Map.empty,
      profile = [''STATE'' \<mapsto> ''NY'', ''POSTALCODE'' \<mapsto> ''10001'']\<rparr>"

definition example_env :: env where
  "example_env =
     \<lparr>home = ''/home/u'', prog = ''ofxpostern.py'',
      asctime_start = ''Tue Nov  3 10:00:00 2026'', asctime_end = ''Tue Nov  3 10:00:01 2026'',
      REQ_NAME_OFX_PROFILE = ''OFX PROFILE'',
      OFXServerInstance =
        (\<lambda>u f g. \<lparr>ofxurl = u,
                   fid = (case f of None \<Rightarrow> '''' | Some x \<Rightarrow> x),
                   org = (case g of None \<Rightarrow> '''' | Some x \<Rightarrow> x)\<rparr>),
      send_req = (\<lambda>n s. Inr \<lparr>headers = [(''Server'', ''x'')], body_text = ''<OFX>''\<rparr>),
      OFXFile = (\<lambda>t. Inr example_profrs),
      json_dumps = (\<lambda>h. ''{}''),
      fs_refuses = (\<lambda>p. False),
      str_args = (\<lambda>a. ''Namespace'')\<rparr>"

text \<open>The same environment with a protocol client that raises on every request.\<close>

definition failing_env :: env where
  "failing_env = example_env\<lparr>send_req := (\<lambda>n s. Inl (TransportError ''connection refused''))\<rparr>"

definition example_args :: args where
  "example_args =
     \<lparr>args_url = ''https://ofx.example.com/ofx/p'', args_fid = Some ''1001'', args_org = None\<rparr>"

definition example_server :: server where
  "example_server =
     \<lparr>ofxurl = ''https://ofx.example.com/a/b?x=1&y=2'', fid = ''1001'', org = ''ACME''\<rparr>"

text \<open>An environment whose \<open>HOME\<close> holds escaped braces.\<close>

definition braces_env :: env where
  "braces_env = example_env\<lparr>home := ''/h{{x}}''\<rparr>"

section \<open>Facts about the primitives\<close>

lemma py_format_plain_char:
  "c \<noteq> CHR ''{'' \<Longrightarrow> c \<noteq> CHR ''}'' \<Longrightarrow> t \<noteq> [] \<Longrightarrow>
     py_format (c # t) as = map_sum id ((#) c) (py_format t as)"
  by (cases t) simp_all

lemma py_format_three_fields:
  "py_format ''{}-{}-{}'' [a, b, c] = Inr (a @ ''-'' @ b @ ''-'' @ c)"
  by simp

lemma py_format_prefix:
  "brace_free p \<Longrightarrow> py_format t as = Inr r \<Longrightarrow> t \<noteq> [] \<Longrightarrow>
     py_format (p @ t) as = Inr (p @ r)"
  by (induction p) (auto simp: brace_free_def py_format_plain_char)

lemma partition_py_after:
  "snd (snd (partition_py sep u)) = drop 1 (dropWhile (\<lambda>c. c \<noteq> sep) u)"
  by (induction u) (auto split: prod.splits)

lemma url_fname_spec: "url_fname u = spec_transformed u"
  by (simp add: url_fname_def spec_transformed_def replace_py_def partition_py_after)

lemma url_fname_no_slash: "CHR ''/'' \<notin> set (url_fname u)"
  by (auto simp: url_fname_def replace_py_def)

lemma brace_free_FIS_DIR: "brace_free h \<Longrightarrow> brace_free (FIS_DIR h @ ''/'')"
  by (simp add: brace_free_def FIS_DIR_def DATA_DIR_def PROGRAM_NAME_def)

lemma FI_DIR_FMT_format:
  "brace_free h \<Longrightarrow>
     py_format (FI_DIR_FMT h) [a, b, c] = Inr (FIS_DIR h @ ''/'' @ a @ ''-'' @ b @ ''-'' @ c)"
  using py_format_prefix [OF brace_free_FIS_DIR py_format_three_fields, of h a b c]
  by (simp add: FI_DIR_FMT_def)

section \<open>Facts about the helper functions\<close>

lemma fi_dir_init:
  "brace_free (home E) \<Longrightarrow>
     fi_dir (snd (init E srv w)) =
       FIS_DIR (home E) @ ''/'' @ url_fname (ofxurl srv) @ ''-'' @ fid srv @ ''-'' @ org srv"
  by (simp add: init_def FI_DIR_FMT_format bind_io_def makedirs_def split: prod.splits sum.splits)

text \<open>\<open>init\<close> writes no file, stores no result, sends nothing and prints nothing.\<close>

lemma init_frame:
  "files (snd (init E srv w)) = files w \<and> req_results (snd (init E srv w)) = req_results w \<and>
   sent (snd (init E srv w)) = sent w \<and> stdout (snd (init E srv w)) = stdout w"
  by (simp add: init_def bind_io_def makedirs_def split: prod.splits sum.splits)

lemma print_header_lvl2:
  "print_header msg 2 w =
     (Inr (), w\<lparr>stdout := stdout w @ [msg, replicate (length msg) CHR ''='']\<rparr>)"
  by (simp add: print_header_def bind_io_def print_py_def)

lemma k_width_fold:
  "k_width kvs kw = fold max (map (\<lambda>(k, v). length k) kvs) kw"
  by (induction kvs arbitrary: kw) (auto simp: max_def not_less intro: arg_cong)

lemma k_width_Max:
  "k_width kvs kw = Max (insert kw (set (map (\<lambda>(k, v). length k) kvs)))"
  using Max.set_eq_fold [of kw "map (\<lambda>(k, v). length k) kvs"]
  by (simp add: k_width_fold)

lemma print_kv_lines_run:
  "print_kv_lines kw kvs w = (Inr (), w\<lparr>stdout := stdout w @ map (kv_line kw) kvs\<rparr>)"
  by (induction kvs arbitrary: w) (auto simp: return_io_def bind_io_def print_py_def kv_line_def)

lemma print_kv_list_run:
  "print_kv_list kvs w =
     (Inr (), w\<lparr>stdout := stdout w @ map (kv_line (k_width kvs 0)) kvs\<rparr>)"
  by (simp add: print_kv_list_def print_kv_lines_run)

section \<open>Facts about the report\<close>

lemma except_getitem:
  "except_KeyError_pass (case getitem d k of Inl e \<Rightarrow> (Some e, l) | Inr v \<Rightarrow> (None, f v)) =
     Inr (case d k of None \<Rightarrow> l | Some v \<Rightarrow> f v)"
  by (simp add: except_KeyError_pass_def getitem_def is_KeyError_def split: option.splits)

lemma fi_loop_run:
  "fi_loop profrs tups fi_list =
     Inr (fi_list @ concat (map (\<lambda>(key, label).
            case profile profrs key of None \<Rightarrow> [] | Some v \<Rightarrow> [(label, v)]) tups))"
  by (induction tups arbitrary: fi_list) (auto simp: except_getitem split: option.splits)

lemma city_state_postalcode_run:
  "except_KeyError_pass (city_state_postalcode_try profrs ('''', '''', '''')) =
     Inr (coupled_city_state_postalcode profrs)"
  by (simp add: city_state_postalcode_try_def except_KeyError_pass_def getitem_def
        is_KeyError_def coupled_city_state_postalcode_def split: option.splits)

lemma country_run:
  "except_KeyError_pass (country_try profrs '''') =
     Inr (case profile profrs ''COUNTRY'' of None \<Rightarrow> '''' | Some c \<Rightarrow> c)"
  by (simp add: country_try_def except_getitem)

lemma report_cli_fi_list_run:
  "report_cli_fi_list profrs =
     Inr (concat (map (\<lambda>(key, label).
            case profile profrs key of None \<Rightarrow> [] | Some v \<Rightarrow> [(label, v)]) output_py)
          @ [('''', (case coupled_city_state_postalcode profrs of
                      (city, state, postalcode) \<Rightarrow> city @ '', '' @ state @ '' '' @ postalcode)),
             ('''', (case profile profrs ''COUNTRY'' of None \<Rightarrow> '''' | Some c \<Rightarrow> c))])"
  by (simp add: report_cli_fi_list_def fi_loop_run city_state_postalcode_run country_run
        split: prod.splits)

lemma server_try_run:
  "except_KeyError_pass (server_try d key label fi_list) =
     Inr (fi_list @ (case d key of None \<Rightarrow> [] | Some v \<Rightarrow> [(label, v)]))"
  by (simp add: server_try_def except_getitem split: option.splits)

lemma report_cli_server_list_run:
  "report_cli_server_list profrs =
     Inr ((case signon profrs ''FID'' of None \<Rightarrow> [] | Some v \<Rightarrow> [(''FID'', v)]) @
          (case signon profrs ''ORG'' of None \<Rightarrow> [] | Some v \<Rightarrow> [(''ORG'', v)]) @
          (case profile profrs ''OFXURL'' of None \<Rightarrow> [] | Some v \<Rightarrow> [(''URL'', v)]))"
  by (simp add: report_cli_server_list_def server_try_run)

text \<open>Both blocks have the same shape: header, underline, blank line, the key/value
  lines, blank line.\<close>

lemma report_block_run:
  "bind_io (print_header title 2) (\<lambda>_.
     bind_io (print_py '''') (\<lambda>_.
     bind_io (lift_io (Inr kvs)) (\<lambda>fi_list.
     bind_io (print_kv_list fi_list) (\<lambda>_.
     print_py '''')))) w =
   (Inr (), w\<lparr>stdout := stdout w @ [title, replicate (length title) CHR ''='', ''''] @
       map (kv_line (k_width kvs 0)) kvs @ ['''']\<rparr>)"
  by (simp add: bind_io_def print_header_lvl2 print_py_def lift_io_def print_kv_list_run)

lemma report_cli_server_run:
  "report_cli_server_list profrs = Inr kvs \<Longrightarrow>
     report_cli_server profrs w =
       (Inr (), w\<lparr>stdout := stdout w @ [''OFX Server'', ''=========='', ''''] @
          map (kv_line (k_width kvs 0)) kvs @ ['''']\<rparr>)"
  by (simp add: report_cli_server_def report_block_run)

lemma report_cli_fi_run:
  "report_cli_fi_list profrs = Inr kvs \<Longrightarrow>
     report_cli_fi profrs w =
       (Inr (), w\<lparr>stdout := stdout w @
          [''Financial Institution'', ''====================='', ''''] @
          map (kv_line (k_width kvs 0)) kvs @ ['''']\<rparr>)"
  by (simp add: report_cli_fi_def report_block_run)

section \<open>The cache directory (claims C1 to C3)\<close>

text \<open>
  C1, as stated, fails on its second half, and its first half needs a condition on
  \<open>HOME\<close>. The derivation is not free of side effects: \<open>init\<close> stores the path in
  the global \<open>fi_dir\<close> and makes three directories, so the state after the call
  differs from the state before. And with \<open>HOME = /h{{x}}\<close> the template
  \<open>FI_DIR_FMT\<close> turns the escaped braces into single ones, so the path is not the
  base directory \<open>FIS_DIR\<close> joined with the segment.
\<close>

theorem C1_counterexample:
  "init example_env example_server example_world =
     (Inr (), example_world
        \<lparr>fi_dir := ''/home/u/.ofxpostern/fi/ofx.example.com_a_b?x=1+y=2-1001-ACME'',
         made_dirs := [''/home/u/.ofxpostern'', ''/home/u/.ofxpostern/fi'',
                       ''/home/u/.ofxpostern/fi/ofx.example.com_a_b?x=1+y=2-1001-ACME'']\<rparr>) \<and>
   snd (init example_env example_server example_world) \<noteq> example_world \<and>
   fi_dir (snd (init braces_env example_server example_world)) =
     ''/h{x}/.ofxpostern/fi/ofx.example.com_a_b?x=1+y=2-1001-ACME'' \<and>
   fi_dir (snd (init braces_env example_server example_world)) \<noteq>
     spec_cache_dir (FIS_DIR (home braces_env)) (ofxurl example_server) (fid example_server)
       (org example_server)"
proof -
  have run: "init example_env example_server example_world =
     (Inr (), example_world
        \<lparr>fi_dir := ''/home/u/.ofxpostern/fi/ofx.example.com_a_b?x=1+y=2-1001-ACME'',
         made_dirs := [''/home/u/.ofxpostern'', ''/home/u/.ofxpostern/fi'',
                       ''/home/u/.ofxpostern/fi/ofx.example.com_a_b?x=1+y=2-1001-ACME'']\<rparr>)"
    by (simp add: init_def example_env_def example_server_def example_world_def FI_DIR_FMT_def
          FIS_DIR_def DATA_DIR_def PROGRAM_NAME_def url_fname_def replace_py_def bind_io_def
          makedirs_def)
  have changed: "snd (init example_env example_server example_world) \<noteq> example_world"
    unfolding run by (simp add: example_world_def)
  have braces: "fi_dir (snd (init braces_env example_server example_world)) =
     ''/h{x}/.ofxpostern/fi/ofx.example.com_a_b?x=1+y=2-1001-ACME''"
    by (simp add: init_def braces_env_def example_env_def example_server_def example_world_def
          FI_DIR_FMT_def FIS_DIR_def DATA_DIR_def PROGRAM_NAME_def url_fname_def replace_py_def
          bind_io_def makedirs_def)
  have differ: "fi_dir (snd (init braces_env example_server example_world)) \<noteq>
     spec_cache_dir (FIS_DIR (home braces_env)) (ofxurl example_server) (fid example_server)
       (org example_server)"
    unfolding braces
    by (simp add: braces_env_def example_env_def example_server_def spec_cache_dir_def
          FIS_DIR_def DATA_DIR_def PROGRAM_NAME_def)
  from run changed braces differ show ?thesis by simp
qed

text \<open>
  C1, amended. When \<open>HOME\<close> is free of braces, then for every url, fid and org the
  cache directory that \<open>init\<close> derives is the fixed base directory \<open>FIS_DIR\<close> joined
  with the segment \<open><transformed>-<fid>-<org>\<close>, the transformed url being as the
  specification words it (\<open>spec_transformed\<close>); this path is a function of \<open>HOME\<close>,
  url, fid and org alone. The derivation has effects, and exactly these: \<open>init\<close>
  stores the path in the global \<open>fi_dir\<close>, then makes \<open>DATA_DIR\<close>, \<open>FIS_DIR\<close> and
  the derived directory in this order, raising at the first one the file system
  refuses. Nothing else changes: no file is written, nothing is sent or printed.
\<close>

theorem C1_init_derives_path_and_makes_dirs:
  assumes "brace_free (home E)"
  shows "let d = spec_cache_dir (FIS_DIR (home E)) (ofxurl srv) (fid srv) (org srv);
             w0 = w\<lparr>fi_dir := d\<rparr>
         in init E srv w =
             (if fs_refuses E (DATA_DIR (home E)) then
                (Inl (OSError (DATA_DIR (home E))), w0)
              else if fs_refuses E (FIS_DIR (home E)) then
                (Inl (OSError (FIS_DIR (home E))),
                 w0\<lparr>made_dirs := made_dirs w @ [DATA_DIR (home E)]\<rparr>)
              else if fs_refuses E d then
                (Inl (OSError d),
                 w0\<lparr>made_dirs := made_dirs w @ [DATA_DIR (home E), FIS_DIR (home E)]\<rparr>)
              else
                (Inr (),
                 w0\<lparr>made_dirs := made_dirs w @ [DATA_DIR (home E), FIS_DIR (home E), d]\<rparr>))"
proof -
  have fmt: "py_format (FI_DIR_FMT (home E)) [url_fname (ofxurl srv), fid srv, org srv] =
      Inr (spec_cache_dir (FIS_DIR (home E)) (ofxurl srv) (fid srv) (org srv))"
    using assms
    by (simp add: FI_DIR_FMT_format spec_cache_dir_def spec_segment_def url_fname_spec)
  show ?thesis
    unfolding Let_def init_def fmt
    by (simp add: bind_io_def makedirs_def)
qed

theorem C1_init_derives_path_and_makes_dirs_witness:
  "brace_free (home example_env) \<and>
   init example_env example_server (example_world\<lparr>fi_dir := ''old''\<rparr>) =
     (Inr (), example_world
        \<lparr>fi_dir := ''/home/u/.ofxpostern/fi/ofx.example.com_a_b?x=1+y=2-1001-ACME'',
         made_dirs := [''/home/u/.ofxpostern'', ''/home/u/.ofxpostern/fi'',
                       ''/home/u/.ofxpostern/fi/ofx.example.com_a_b?x=1+y=2-1001-ACME'']\<rparr>)"
  using C1_init_derives_path_and_makes_dirs
    [of example_env example_server "example_world\<lparr>fi_dir := ''old''\<rparr>"]
  by (simp add: Let_def brace_free_def example_env_def example_server_def example_world_def
        spec_cache_dir_def spec_segment_def spec_transformed_def FIS_DIR_def DATA_DIR_def
        PROGRAM_NAME_def)

text \<open>
  C2, as stated, fails: with the same url, the pairs \<open>('a-b', 'c')\<close> and
  \<open>('a', 'b-c')\<close> differ and get the same cache directory, because fid and org are
  joined with the character \<open>-\<close> that they may themselves contain.
\<close>

theorem C2_counterexample:
  "(''a-b'', ''c'') \<noteq> (''a'', ''b-c'') \<and>
   fi_dir (snd (init example_env \<lparr>ofxurl = ''https://ofx.example.com/p'', fid = ''a-b'', org = ''c''\<rparr>
     example_world)) =
   fi_dir (snd (init example_env \<lparr>ofxurl = ''https://ofx.example.com/p'', fid = ''a'', org = ''b-c''\<rparr>
     example_world))"
  by (simp add: fi_dir_init brace_free_def example_env_def)

text \<open>
  C2, amended. The derivation is deterministic: equal (url, fid, org) give equal cache
  directories, whatever the state. Under a fixed url it is injective in (fid, org)
  when neither fid contains \<open>-\<close>, or neither org does.
\<close>

theorem C2_cache_key_deterministic_injective:
  assumes "brace_free (home E)" and "ofxurl s1 = ofxurl s2"
  shows "(fid s1 = fid s2 \<and> org s1 = org s2 \<longrightarrow>
            fi_dir (snd (init E s1 w1)) = fi_dir (snd (init E s2 w2))) \<and>
         ((CHR ''-'' \<notin> set (fid s1) \<and> CHR ''-'' \<notin> set (fid s2) \<or>
           CHR ''-'' \<notin> set (org s1) \<and> CHR ''-'' \<notin> set (org s2)) \<and>
          (fid s1, org s1) \<noteq> (fid s2, org s2) \<longrightarrow>
            fi_dir (snd (init E s1 w1)) \<noteq> fi_dir (snd (init E s2 w2)))"
proof -
  have inj_fid: "a = c \<and> b = d"
    if "CHR ''-'' \<notin> set a" "CHR ''-'' \<notin> set c" "a @ CHR ''-'' # b = c @ CHR ''-'' # d"
    for a b c d :: string
  proof -
    have "takeWhile (\<lambda>y. y \<noteq> CHR ''-'') (a @ CHR ''-'' # b) = a"
      using that(1) by (subst takeWhile_append2) auto
    moreover have "takeWhile (\<lambda>y. y \<noteq> CHR ''-'') (c @ CHR ''-'' # d) = c"
      using that(2) by (subst takeWhile_append2) auto
    ultimately have "a = c" using that(3) by simp
    with that(3) show ?thesis by simp
  qed
  have inj_org: "a = c \<and> b = d"
    if "CHR ''-'' \<notin> set b" "CHR ''-'' \<notin> set d" "a @ CHR ''-'' # b = c @ CHR ''-'' # d"
    for a b c d :: string
  proof -
    from that(3) have "rev (a @ CHR ''-'' # b) = rev (c @ CHR ''-'' # d)" by simp
    then have "rev b @ CHR ''-'' # rev a = rev d @ CHR ''-'' # rev c" by simp
    with that(1,2) have "rev b = rev d \<and> rev a = rev c"
      using inj_fid [of "rev b" "rev d" "rev a" "rev c"] by simp
    then show ?thesis by simp
  qed
  show ?thesis
    using assms inj_fid [of "fid s1" "fid s2" "org s1" "org s2"]
      inj_org [of "org s1" "org s2" "fid s1" "fid s2"]
    by (auto simp: fi_dir_init)
qed

theorem C2_cache_key_deterministic_injective_witness:
  "brace_free (home example_env) \<and>
   fi_dir (snd (init example_env \<lparr>ofxurl = ''https://ofx.example.com/p'', fid = ''1001'', org = ''A''\<rparr>
     example_world)) \<noteq>
   fi_dir (snd (init example_env \<lparr>ofxurl = ''https://ofx.example.com/p'', fid = ''1002'', org = ''A''\<rparr>
     example_world)) \<and>
   fi_dir (snd (init example_env \<lparr>ofxurl = ''https://ofx.example.com/p'', fid = ''1001'', org = ''A''\<rparr>
     example_world)) =
   fi_dir (snd (init example_env \<lparr>ofxurl = ''https://ofx.example.com/p'', fid = ''1001'', org = ''A''\<rparr>
     (example_world\<lparr>fi_dir := ''old''\<rparr>)))"
  using C2_cache_key_deterministic_injective [of example_env
      "\<lparr>ofxurl = ''https://ofx.example.com/p'', fid = ''1001'', org = ''A''\<rparr>"
      "\<lparr>ofxurl = ''https://ofx.example.com/p'', fid = ''1002'', org = ''A''\<rparr>"
      example_world example_world]
    C2_cache_key_deterministic_injective [of example_env
      "\<lparr>ofxurl = ''https://ofx.example.com/p'', fid = ''1001'', org = ''A''\<rparr>"
      "\<lparr>ofxurl = ''https://ofx.example.com/p'', fid = ''1001'', org = ''A''\<rparr>"
      example_world "example_world\<lparr>fi_dir := ''old''\<rparr>"]
  by (simp add: brace_free_def example_env_def)

text \<open>
  C3, as stated, fails: the url has a \<open>/\<close> after the scheme, and the fid \<open>a/b\<close>,
  interpolated verbatim, puts a \<open>/\<close> into the segment.
\<close>

theorem C3_counterexample:
  "CHR ''/'' \<in> set (drop 8 ''https://ofx.example.com/p'') \<and>
   CHR ''/'' \<in> set (fi_segment (home example_env)
      (fi_dir (snd (init example_env
         \<lparr>ofxurl = ''https://ofx.example.com/p'', fid = ''a/b'', org = ''''\<rparr> example_world))))"
  by (simp add: fi_dir_init fi_segment_def brace_free_def example_env_def url_fname_def
        replace_py_def)

text \<open>
  C3, amended. The url never contributes a \<open>/\<close>: for every url, the per-identity
  segment contains a \<open>/\<close> exactly when fid or org contains one. So for every url and
  every fid and org free of \<open>/\<close>, the segment is free of \<open>/\<close>.
\<close>

theorem C3_segment_slash_iff:
  assumes "brace_free (home E)"
  shows "CHR ''/'' \<in> set (fi_segment (home E) (fi_dir (snd (init E srv w)))) \<longleftrightarrow>
           CHR ''/'' \<in> set (fid srv) \<or> CHR ''/'' \<in> set (org srv)"
  using assms url_fname_no_slash [of "ofxurl srv"]
  by (auto simp: fi_dir_init fi_segment_def)

theorem C3_segment_slash_iff_witness:
  "brace_free (home example_env) \<and>
   CHR ''/'' \<notin> set (fi_segment (home example_env)
      (fi_dir (snd (init example_env
         \<lparr>ofxurl = ''https://ofx.example.com/a/b'', fid = ''1001'', org = ''ACME''\<rparr> example_world))))"
  using C3_segment_slash_iff [of example_env
      "\<lparr>ofxurl = ''https://ofx.example.com/a/b'', fid = ''1001'', org = ''ACME''\<rparr>" example_world]
  by (simp add: brace_free_def example_env_def)

section \<open>Facts used by the claims on the report and the run\<close>

lemma k_width_longest:
  "kvs \<noteq> [] \<Longrightarrow> k_width kvs 0 = Max (set (map (\<lambda>(k, v). length k) kvs))"
  by (simp add: k_width_Max)

lemma length_le_k_width: "(k, v) \<in> set kvs \<Longrightarrow> length k \<le> k_width kvs 0"
  by (force simp: k_width_Max intro: Max_ge)

lemma send_profile_req_raises:
  "send_req E (REQ_NAME_OFX_PROFILE E) srv = Inl e \<Longrightarrow>
     send_profile_req E srv w = (Inl e, w\<lparr>sent := sent w @ [REQ_NAME_OFX_PROFILE E]\<rparr>)"
  by (simp add: send_profile_req_def Let_def)

lemma main_adapter_raises:
  assumes "send_req E (REQ_NAME_OFX_PROFILE E)
             (OFXServerInstance E (args_url a) (args_fid a) (args_org a)) = Inl e"
  shows "main E a w =
     (case init E (OFXServerInstance E (args_url a) (args_fid a) (args_org a))
             (w\<lparr>stdout := stdout w @ [''DEBUG: '' @ str_args E a]\<rparr>) of
        (Inl e0, w2) \<Rightarrow> (Inl e0, w2)
      | (Inr u, w2) \<Rightarrow>
          (Inl e, w2\<lparr>sent := sent w2 @ [REQ_NAME_OFX_PROFILE E],
                     stdout := stdout w2 @
                       [prog E @ '': version '' @ VERSION, '''',
                        ''Start: '' @ asctime_start E, ''  Sending <PROFRQ>'']\<rparr>))"
  using assms
  by (simp add: main_def Let_def bind_io_def print_debug_def debug_def print_py_def
        send_profile_req_raises split: prod.splits sum.splits)

section \<open>The report (claims C4 to C6, C8 to C10)\<close>

text \<open>
  C4. The claim has city, state and postal code substituted independently. The code
  reads the three in one \<open>try\<close>, so on the profile \<open>{STATE: 'NY', POSTALCODE: '10001'}\<close>,
  which has no city, the first lookup raises and the other two are never made: the
  line value is \<open>',  '\<close> where independent substitution gives \<open>', NY 10001'\<close>. The two
  lines themselves are emitted.
\<close>

theorem C4_state_dropped_without_city:
  "report_cli_fi_list no_city_profrs = Inr [('''', '',  ''), ('''', '''')] \<and>
   stdout (snd (report_cli_fi no_city_profrs example_world)) =
     [''Financial Institution'', ''====================='', '''', '': ,  '', '': '', ''''] \<and>
   (case independent_city_state_postalcode no_city_profrs of
      (city, state, postalcode) \<Rightarrow> city @ '', '' @ state @ '' '' @ postalcode) = '', NY 10001''"
proof -
  have l: "report_cli_fi_list no_city_profrs = Inr [('''', '',  ''), ('''', '''')]"
    unfolding report_cli_fi_list_run
    by (simp add: no_city_profrs_def output_py_def coupled_city_state_postalcode_def)
  have "stdout (snd (report_cli_fi no_city_profrs example_world)) =
     [''Financial Institution'', ''====================='', '''', '': ,  '', '': '', '''']"
    by (simp add: report_cli_fi_run [OF l] example_world_def kv_line_def format_width_def)
  moreover have "(case independent_city_state_postalcode no_city_profrs of
      (city, state, postalcode) \<Rightarrow> city @ '', '' @ state @ '' '' @ postalcode) = '', NY 10001''"
    by (simp add: independent_city_state_postalcode_def no_city_profrs_def)
  ultimately show ?thesis using l by simp
qed

text \<open>
  C5. The server block tries \<open>signon['FID']\<close>, \<open>signon['ORG']\<close> and
  \<open>profile['OFXURL']\<close> in this order under the labels FID, ORG and URL, and an absent
  key adds no pair. The header, its underline and the blank lines are printed whatever
  the list is, also when it is empty. For \<open>signon = {FID: '1001'}\<close> and
  \<open>profile = {OFXURL: 'https://ofx.example.com'}\<close> the key/value lines are exactly
  \<open>FID: 1001\<close> and \<open>URL: https://ofx.example.com\<close>.
\<close>

theorem C5_server_block:
  "report_cli_server_list profrs =
     Inr ((case signon profrs ''FID'' of None \<Rightarrow> [] | Some v \<Rightarrow> [(''FID'', v)]) @
          (case signon profrs ''ORG'' of None \<Rightarrow> [] | Some v \<Rightarrow> [(''ORG'', v)]) @
          (case profile profrs ''OFXURL'' of None \<Rightarrow> [] | Some v \<Rightarrow> [(''URL'', v)])) \<and>
   (\<exists>kvs. report_cli_server_list profrs = Inr kvs \<and>
      report_cli_server profrs w =
        (Inr (), w\<lparr>stdout := stdout w @ [''OFX Server'', ''=========='', ''''] @
           map (kv_line (k_width kvs 0)) kvs @ ['''']\<rparr>)) \<and>
   report_cli_server example_profrs w =
     (Inr (), w\<lparr>stdout := stdout w @
        [''OFX Server'', ''=========='', '''',
         ''FID: 1001'', ''URL: https://ofx.example.com'', '''']\<rparr>) \<and>
   report_cli_server \<lparr>signon = Map.empty, profile = Map.empty\<rparr> w =
     (Inr (), w\<lparr>stdout := stdout w @ [''OFX Server'', ''=========='', '''', '''']\<rparr>)"
proof -
  have ex: "report_cli_server_list example_profrs =
      Inr [(''FID'', ''1001''), (''URL'', ''https://ofx.example.com'')]"
    by (simp add: report_cli_server_list_run example_profrs_def)
  have none: "report_cli_server_list \<lparr>signon = Map.empty, profile = Map.empty\<rparr> = Inr []"
    by (simp add: report_cli_server_list_run)
  have "report_cli_server example_profrs w =
     (Inr (), w\<lparr>stdout := stdout w @
        [''OFX Server'', ''=========='', '''',
         ''FID: 1001'', ''URL: https://ofx.example.com'', '''']\<rparr>)"
    by (simp add: report_cli_server_run [OF ex] kv_line_def format_width_def)
  moreover have "report_cli_server \<lparr>signon = Map.empty, profile = Map.empty\<rparr> w =
     (Inr (), w\<lparr>stdout := stdout w @ [''OFX Server'', ''=========='', '''', '''']\<rparr>)"
    by (simp add: report_cli_server_run [OF none])
  ultimately show ?thesis
    by (simp add: report_cli_server_list_run report_cli_server_run)
qed

text \<open>
  C6. For a non-empty list, \<open>print_kv_list\<close> prints one line per pair, in the order
  of the list. With \<open>W\<close> the length of the longest key, each line is the label (the key
  with its colon) padded with spaces on the right to width \<open>W + 1\<close>, then one space,
  then the value.
\<close>

theorem C6_print_kv_list_format:
  assumes "kv_list \<noteq> []"
  shows "let W = Max (set (map (\<lambda>(k, v). length k) kv_list)) in
           print_kv_list kv_list w =
             (Inr (), w\<lparr>stdout := stdout w @
                map (\<lambda>(k, v). format_width (k @ '':'') (W + 1) @ '' '' @ v) kv_list\<rparr>) \<and>
           (\<forall>(k, v) \<in> set kv_list.
              format_width (k @ '':'') (W + 1) = k @ '':'' @ replicate (W - length k) CHR '' '' \<and>
              length (format_width (k @ '':'') (W + 1)) = W + 1)"
proof -
  have W: "k_width kv_list 0 = Max (set (map (\<lambda>(k, v). length k) kv_list))"
    using assms by (rule k_width_longest)
  have "map (kv_line (k_width kv_list 0)) kv_list =
      map (\<lambda>(k, v). format_width (k @ '':'') (k_width kv_list 0 + 1) @ '' '' @ v) kv_list"
    by (simp add: kv_line_def case_prod_beta)
  moreover have "length k \<le> k_width kv_list 0" if "(k, v) \<in> set kv_list" for k v
    using that by (rule length_le_k_width)
  ultimately show ?thesis
    unfolding Let_def W [symmetric]
    by (auto simp: print_kv_list_run format_width_def)
qed

theorem C6_print_kv_list_format_witness:
  "[(''Name'', ''Acme Bank''), (''Address'', ''1 Main St''), ('''', ''Suite 2'')] \<noteq> [] \<and>
   stdout (snd (print_kv_list
      [(''Name'', ''Acme Bank''), (''Address'', ''1 Main St''), ('''', ''Suite 2'')] example_world)) =
     [''Name:    Acme Bank'', ''Address: 1 Main St'', '':        Suite 2'']"
  using C6_print_kv_list_format
    [of "[(''Name'', ''Acme Bank''), (''Address'', ''1 Main St''), ('''', ''Suite 2'')]" example_world]
  by (simp add: Let_def format_width_def example_world_def)

text \<open>
  C8. For every parsed response, whatever keys its two dictionaries hold, both report
  blocks and the whole report complete normally: no lookup of a missing key escapes.
\<close>

theorem C8_report_cli_never_raises:
  "(\<exists>w'. report_cli_fi profrs w = (Inr (), w')) \<and>
   (\<exists>w'. report_cli_server profrs w = (Inr (), w')) \<and>
   (\<exists>w'. report_cli profrs w = (Inr (), w'))"
  by (simp add: report_cli_def bind_io_def report_cli_fi_run [OF report_cli_fi_list_run]
        report_cli_server_run [OF report_cli_server_list_run])



text \<open>
  C10. Every line of \<open>print_kv_list\<close> is the key, a colon, padding of spaces, one
  space and the value; for the empty key it begins with the colon alone. The
  institution block always ends with two such lines and a blank line.
\<close>

theorem C10_colon_before_padding:
  "print_kv_list kv_list w =
     (Inr (), w\<lparr>stdout := stdout w @ map (kv_line (k_width kv_list 0)) kv_list\<rparr>) \<and>
   (\<forall>kw k v. \<exists>pad. kv_line kw (k, v) = k @ '':'' @ pad @ '' '' @ v \<and> set pad \<subseteq> {CHR '' ''}) \<and>
   (\<forall>kw v. kv_line kw ('''', v) = CHR '':'' # replicate kw CHR '' '' @ '' '' @ v) \<and>
   (\<exists>pre l1 l2. stdout (snd (report_cli_fi profrs w)) =
      stdout w @ pre @ [CHR '':'' # l1, CHR '':'' # l2, ''''])"
proof -
  obtain pre x y where l: "report_cli_fi_list profrs = Inr (pre @ [('''', x), ('''', y)])"
    by (simp add: report_cli_fi_list_run)
  have "\<exists>pre l1 l2. stdout (snd (report_cli_fi profrs w)) =
      stdout w @ pre @ [CHR '':'' # l1, CHR '':'' # l2, '''']"
    by (simp add: report_cli_fi_run [OF l] kv_line_def format_width_def)
  then show ?thesis
    by (auto simp: print_kv_list_run kv_line_def format_width_def)
qed

section \<open>The run (claim C7)\<close>

text \<open>
  C7. When the protocol client raises \<open>e\<close> for the profile request,
  \<open>send_profile_req\<close> raises \<open>e\<close> having changed nothing but the record of the request
  sent. \<open>main\<close> then ends with an exception, with the files and \<open>req_results\<close> as they
  were. If \<open>init\<close> had returned, the exception is \<open>e\<close> itself, the request was handed
  to the client once, and the output is the debug line, the banner, a blank line and
  the two progress lines: no line of the report. If \<open>init\<close> had raised, the run ended
  there, after the debug line, and nothing was sent.
\<close>

theorem C7_transport_error_aborts_run:
  assumes "send_req E (REQ_NAME_OFX_PROFILE E)
             (OFXServerInstance E (args_url a) (args_fid a) (args_org a)) = Inl e"
  shows "send_profile_req E (OFXServerInstance E (args_url a) (args_fid a) (args_org a)) w' =
           (Inl e, w'\<lparr>sent := sent w' @ [REQ_NAME_OFX_PROFILE E]\<rparr>) \<and>
         (\<exists>e'. fst (main E a w) = Inl e') \<and>
         files (snd (main E a w)) = files w \<and>
         req_results (snd (main E a w)) = req_results w \<and>
         (if fst (init E (OFXServerInstance E (args_url a) (args_fid a) (args_org a))
                   (w\<lparr>stdout := stdout w @ [''DEBUG: '' @ str_args E a]\<rparr>)) = Inr ()
          then fst (main E a w) = Inl e \<and>
               sent (snd (main E a w)) = sent w @ [REQ_NAME_OFX_PROFILE E] \<and>
               stdout (snd (main E a w)) =
                 stdout w @ [''DEBUG: '' @ str_args E a, prog E @ '': version '' @ VERSION, '''',
                             ''Start: '' @ asctime_start E, ''  Sending <PROFRQ>'']
          else sent (snd (main E a w)) = sent w \<and>
               stdout (snd (main E a w)) = stdout w @ [''DEBUG: '' @ str_args E a])"
proof -
  let ?srv = "OFXServerInstance E (args_url a) (args_fid a) (args_org a)"
  let ?w1 = "w\<lparr>stdout := stdout w @ [''DEBUG: '' @ str_args E a]\<rparr>"
  obtain r w2 where i: "init E ?srv ?w1 = (r, w2)" by (cases "init E ?srv ?w1")
  have frame: "files w2 = files w" "req_results w2 = req_results w" "sent w2 = sent w"
    "stdout w2 = stdout w @ [''DEBUG: '' @ str_args E a]"
    using init_frame [of E ?srv ?w1] i by simp_all
  have s: "send_profile_req E ?srv w' = (Inl e, w'\<lparr>sent := sent w' @ [REQ_NAME_OFX_PROFILE E]\<rparr>)"
    using assms by (rule send_profile_req_raises)
  show ?thesis
  proof (cases r)
    case (Inl e0)
    then show ?thesis
      using main_adapter_raises [OF assms, of w] i frame s by simp
  next
    case (Inr u)
    then show ?thesis
      using main_adapter_raises [OF assms, of w] i frame s by simp
  qed
qed

theorem C7_transport_error_aborts_run_witness:
  "send_req failing_env (REQ_NAME_OFX_PROFILE failing_env)
     (OFXServerInstance failing_env (args_url example_args) (args_fid example_args)
        (args_org example_args)) = Inl (TransportError ''connection refused'') \<and>
   fst (main failing_env example_args example_world) = Inl (TransportError ''connection refused'') \<and>
   files (snd (main failing_env example_args example_world)) = Map.empty \<and>
   req_results (snd (main failing_env example_args example_world)) = Map.empty \<and>
   sent (snd (main failing_env example_args example_world)) = [''OFX PROFILE''] \<and>
   stdout (snd (main failing_env example_args example_world)) =
     [''DEBUG: Namespace'', ''ofxpostern.py: version 0.0.1'', '''',
      ''Start: Tue Nov  3 10:00:00 2026'', ''  Sending <PROFRQ>'']"
proof -
  have h: "send_req failing_env (REQ_NAME_OFX_PROFILE failing_env)
     (OFXServerInstance failing_env (args_url example_args) (args_fid example_args)
        (args_org example_args)) = Inl (TransportError ''connection refused'')"
    by (simp add: failing_env_def)
  have i: "fst (init failing_env
       (OFXServerInstance failing_env (args_url example_args) (args_fid example_args)
          (args_org example_args))
       (example_world\<lparr>stdout := stdout example_world @
          [''DEBUG: '' @ str_args failing_env example_args]\<rparr>)) = Inr ()"
    by (simp add: init_def FI_DIR_FMT_format brace_free_def failing_env_def example_env_def
          bind_io_def makedirs_def)
  show ?thesis
    using C7_transport_error_aborts_run [OF h, of example_world example_world] h i
    by (simp add: failing_env_def example_env_def example_world_def VERSION_def)
qed

end
